theory Spec2Isabelle
  imports Complex_Main
begin

section \<open>Static registries\<close>

text \<open>
  The engine of the IoT security platform is the React hook \<open>useSimulation\<close>. Its state is
  modelled as a record that every action takes and returns; the random draws
  (\<open>Math.random()\<close>), the identifiers returned by \<open>generateId()\<close> and the clock readings
  (\<open>Date.now()\<close>) are inputs of the actions. JavaScript numbers are modelled exactly:
  counters and millisecond timestamps as \<open>int\<close>, a random draw as a \<open>real\<close> whose product
  with an array length is taken exactly. Strings are byte lists; the one non-ASCII
  character of the sources, the em dash, is written as its UTF-8 bytes.
\<close>

definition em_dash :: string where
  "em_dash = [CHR 0xE2, CHR 0x80, CHR 0x94]"

subsection \<open>Devices (data/devices.js)\<close>

datatype device_type = CAMERA | DOOR_LOCK | THERMOSTAT | MOTION_SENSOR | SMART_LIGHT | ROUTER

datatype status = SECURE | WARNING | COMPROMISED

text \<open>A static device record; field \<open>id\<close>, \<open>name\<close> and \<open>type\<close> carry the prefix \<open>dev_\<close>.\<close>

record device_info =
  dev_id :: string
  dev_name :: string
  dev_type :: device_type
  position :: "real list"
  description :: string
  firmware :: string
  protocol :: string
  vulnerabilities :: "string list"
  icon :: string

text \<open>The runtime device: the static record with the \<open>status\<close> field added.\<close>

record device = device_info +
  status :: status

definition initialDevices :: "device_info list" where
  "initialDevices = [
     \<lparr>dev_id = ''router-01'', dev_name = ''Wi-Fi Router'', dev_type = ROUTER,
      position = [0, 1.2, 0],
      description = ''Central hub '' @ em_dash @ '' routes all smart home traffic'',
      firmware = ''v3.2.1'', protocol = ''WPA3'',
      vulnerabilities = [''Default credentials'', ''Open management port''],
      icon = ''Wifi''\<rparr>,
     \<lparr>dev_id = ''camera-01'', dev_name = ''Smart Camera'', dev_type = CAMERA,
      position = [2.5, 2.0, 1.5],
      description = ''IP surveillance camera '' @ em_dash @ '' entrance monitoring'',
      firmware = ''v1.4.0'', protocol = ''RTSP'',
      vulnerabilities = [''Unencrypted video stream'', ''Weak authentication''],
      icon = ''Camera''\<rparr>,
     \<lparr>dev_id = ''lock-01'', dev_name = ''Smart Door Lock'', dev_type = DOOR_LOCK,
      position = [3.0, 1.0, 0],
      description = ''Electronic lock with remote access'',
      firmware = ''v2.1.0'', protocol = ''BLE/Zigbee'',
      vulnerabilities = [''Replay attack vector'', ''BLE sniffing''],
      icon = ''Lock''\<rparr>,
     \<lparr>dev_id = ''thermostat-01'', dev_name = ''Smart Thermostat'', dev_type = THERMOSTAT,
      position = [-2.0, 1.5, 1.0],
      description = ''Climate control with remote scheduling'',
      firmware = ''v1.8.3'', protocol = ''Z-Wave'',
      vulnerabilities = [''Insecure API endpoint'', ''No certificate pinning''],
      icon = ''Thermometer''\<rparr>,
     \<lparr>dev_id = ''motion-01'', dev_name = ''Motion Sensor'', dev_type = MOTION_SENSOR,
      position = [0, 2.8, -2.0],
      description = ''PIR motion detector for security system'',
      firmware = ''v1.0.2'', protocol = ''Zigbee'',
      vulnerabilities = [''Signal jamming'', ''No tamper detection''],
      icon = ''Activity''\<rparr>,
     \<lparr>dev_id = ''light-01'', dev_name = ''Smart Light'', dev_type = SMART_LIGHT,
      position = [-1.5, 2.5, -1.0],
      description = ''RGB smart bulb with scheduling'',
      firmware = ''v2.0.1'', protocol = ''Wi-Fi'',
      vulnerabilities = [''Network enumeration via bulb'', ''Cleartext commands''],
      icon = ''Lightbulb''\<rparr>]"

subsection \<open>Attack definitions (data/attacks.js)\<close>

definition BRUTE_FORCE :: string where "BRUTE_FORCE = ''brute_force''"
definition MITM :: string where "MITM = ''man_in_the_middle''"
definition UNAUTHORIZED_ACCESS :: string where "UNAUTHORIZED_ACCESS = ''unauthorized_access''"
definition DOS :: string where "DOS = ''denial_of_service''"
definition REPLAY :: string where "REPLAY = ''replay_attack''"
definition FIRMWARE_EXPLOIT :: string where "FIRMWARE_EXPLOIT = ''firmware_exploit''"

record attack_definition =
  def_id :: string
  def_name :: string
  def_shortName :: string
  def_description :: string
  def_targetDevices :: "string list"
  def_severity :: string
  def_color :: string
  def_protocolBlock :: string
  def_mitreTactic :: string

definition attackDefinitions :: "attack_definition list" where
  "attackDefinitions = [
     \<lparr>def_id = BRUTE_FORCE, def_name = ''Brute Force Attack'', def_shortName = ''Brute Force'',
      def_description = ''Automated password guessing against device authentication.'',
      def_targetDevices = [''camera-01'', ''lock-01'', ''router-01''],
      def_severity = ''high'', def_color = ''#ff3366'',
      def_protocolBlock =
        ''Authentication layer blocks after 3 failed attempts and triggers alert.'',
      def_mitreTactic = ''Credential Access (T1110)''\<rparr>,
     \<lparr>def_id = MITM, def_name = ''Man-in-the-Middle'', def_shortName = ''MITM'',
      def_description = ''Attacker intercepts communication between IoT device and hub.'',
      def_targetDevices = [''thermostat-01'', ''camera-01'', ''router-01''],
      def_severity = ''critical'', def_color = ''#ff0044'',
      def_protocolBlock = ''Encrypted tunnel with mutual TLS prevents interception.'',
      def_mitreTactic = ''Collection (T1557)''\<rparr>,
     \<lparr>def_id = UNAUTHORIZED_ACCESS, def_name = ''Unauthorized Access'',
      def_shortName = ''Unauth Access'',
      def_description = ''Exploiting default credentials or API weaknesses.'',
      def_targetDevices = [''lock-01'', ''light-01'', ''thermostat-01''],
      def_severity = ''high'', def_color = ''#ff6600'',
      def_protocolBlock =
        ''Multi-factor device authentication and RBAC deny unauthorized requests.'',
      def_mitreTactic = ''Initial Access (T1078)''\<rparr>,
     \<lparr>def_id = DOS, def_name = ''Denial of Service'', def_shortName = ''DoS'',
      def_description = ''Flooding device with requests to make it unresponsive.'',
      def_targetDevices = [''router-01'', ''camera-01''],
      def_severity = ''medium'', def_color = ''#ff9900'',
      def_protocolBlock = ''Rate limiting and traffic analysis detect anomalous patterns.'',
      def_mitreTactic = ''Impact (T1499)''\<rparr>,
     \<lparr>def_id = REPLAY, def_name = ''Replay Attack'', def_shortName = ''Replay'',
      def_description = ''Capturing and retransmitting valid commands.'',
      def_targetDevices = [''lock-01'', ''light-01''],
      def_severity = ''high'', def_color = ''#cc3399'',
      def_protocolBlock =
        ''Nonce-based message authentication ensures each command is unique.'',
      def_mitreTactic = ''Credential Access (T1040)''\<rparr>,
     \<lparr>def_id = FIRMWARE_EXPLOIT, def_name = ''Firmware Exploit'', def_shortName = ''Firmware'',
      def_description = ''Exploiting vulnerabilities in outdated device firmware.'',
      def_targetDevices = [''motion-01'', ''camera-01'', ''thermostat-01''],
      def_severity = ''critical'', def_color = ''#ff0066'',
      def_protocolBlock =
        ''Secure boot chain and signed firmware updates prevent exploitation.'',
      def_mitreTactic = ''Execution (T1195)''\<rparr>]"

section \<open>Helpers (utils/helpers.js)\<close>

text \<open>What JavaScript throws: an \<open>Error\<close> with its message, or a \<open>TypeError\<close>.\<close>

datatype error = Error string | TypeError

text \<open>
  \<open>randomElement(array)\<close> is \<open>array[Math.floor(Math.random() * array.length)]\<close>. The draw
  \<open>r\<close> is the value of \<open>Math.random()\<close>; an index outside the array reads \<open>undefined\<close>
  in JavaScript, which is \<open>None\<close> here.
\<close>

definition randomElement :: "'a list \<Rightarrow> real \<Rightarrow> 'a option" where
  "randomElement array r =
     (let i = \<lfloor>r * real (length array)\<rfloor>
      in if 0 \<le> i \<and> i < int (length array) then Some (array ! nat i) else None)"

section \<open>The simulation engine (hooks/useSimulation.js)\<close>

definition MAX_EVENTS :: nat where
  "MAX_EVENTS = 50"

definition buildInitialDevices :: "device list" where
  "buildInitialDevices =
     map (\<lambda>d. device_info.extend d (device.fields SECURE)) initialDevices"

text \<open>
  A runtime attack. \<open>targetDeviceId\<close> is the result of \<open>randomElement\<close>, so it is an
  option (\<open>None\<close> for \<open>undefined\<close>).
\<close>

record attack =
  att_id :: string
  att_type :: string
  att_name :: string
  att_shortName :: string
  att_severity :: string
  att_color :: string
  att_targetDeviceId :: "string option"
  att_blocked :: bool
  att_timestamp :: int

text \<open>A log entry; \<open>targetDeviceId\<close> is \<open>null\<close> (\<open>None\<close>) for the protocol events.\<close>

record event =
  ev_id :: string
  ev_timestamp :: int
  ev_attackName :: string
  ev_attackType :: string
  ev_severity :: string
  ev_targetDeviceId :: "string option"
  ev_blocked :: bool
  ev_message :: string

record stats =
  totalAttacks :: int
  blockedAttacks :: int
  activeThreats :: int
  attacksPerMinute :: int

text \<open>
  The state the hook owns: the five \<open>useState\<close> cells and the \<open>attackTimestamps\<close> ref.
\<close>

record simulation =
  devices :: "device list"
  activeAttacks :: "attack list"
  protocolEnabled :: bool
  events :: "event list"
  stats :: stats
  attackTimestamps :: "int list"

definition initialState :: simulation where
  "initialState =
     \<lparr>devices = buildInitialDevices,
      activeAttacks = [],
      protocolEnabled = True,
      events = [],
      stats = \<lparr>totalAttacks = 0, blockedAttacks = 0, activeThreats = 0, attacksPerMinute = 0\<rparr>,
      attackTimestamps = []\<rparr>"

definition pushEvent :: "event \<Rightarrow> simulation \<Rightarrow> simulation" where
  "pushEvent event s = s\<lparr>events := take MAX_EVENTS (event # events s)\<rparr>"

text \<open>\<open>refreshStats(attacks, total, totalBlocked)\<close>; \<open>now\<close> is its reading of the clock.\<close>

definition refreshStats :: "attack list \<Rightarrow> int \<Rightarrow> int \<Rightarrow> int \<Rightarrow> simulation \<Rightarrow> simulation" where
  "refreshStats attacks total' totalBlocked now s =
     (let ts = filter (\<lambda>t. now - t < 60000) (attackTimestamps s)
      in s\<lparr>attackTimestamps := ts,
           stats := \<lparr>totalAttacks = total',
                     blockedAttacks = totalBlocked,
                     activeThreats = int (length (filter (\<lambda>a. \<not> att_blocked a) attacks)),
                     attacksPerMinute = int (length ts)\<rparr>\<rparr>)"

text \<open>The template literal prints an \<open>undefined\<close> target as the word itself.\<close>

definition show_target :: "string option \<Rightarrow> string" where
  "show_target t = (case t of None \<Rightarrow> ''undefined'' | Some d \<Rightarrow> d)"

text \<open>
  \<open>startAttack(attackType)\<close>. Inputs besides the state: \<open>r\<close>, the draw of
  \<open>randomElement\<close>; \<open>aid\<close> and \<open>eid\<close>, the two results of \<open>generateId()\<close>; \<open>now\<close>, the
  clock when the attack is built; \<open>now2\<close>, the clock when the stats are recomputed.
\<close>

definition startAttack ::
  "string \<Rightarrow> real \<Rightarrow> string \<Rightarrow> string \<Rightarrow> int \<Rightarrow> int \<Rightarrow> simulation \<Rightarrow> simulation" where
  "startAttack attackType r aid eid now now2 s =
     (case find (\<lambda>a. def_id a = attackType) attackDefinitions of
        None \<Rightarrow> s
      | Some definition \<Rightarrow>
          let targetDeviceId = randomElement (def_targetDevices definition) r;
              blocked = protocolEnabled s;
              attack = \<lparr>att_id = aid,
                        att_type = def_id definition,
                        att_name = def_name definition,
                        att_shortName = def_shortName definition,
                        att_severity = def_severity definition,
                        att_color = def_color definition,
                        att_targetDeviceId = targetDeviceId,
                        att_blocked = blocked,
                        att_timestamp = now\<rparr>;
              s1 = s\<lparr>attackTimestamps := attackTimestamps s @ [now]\<rparr>;
              s2 = s1\<lparr>activeAttacks := activeAttacks s1 @ [attack]\<rparr>;
              s3 = (if \<not> blocked
                    then s2\<lparr>devices :=
                           map (\<lambda>d. if Some (dev_id d) \<noteq> targetDeviceId then d
                                     else d\<lparr>status :=
                                            (if def_severity definition = ''critical''
                                             then COMPROMISED else WARNING)\<rparr>)
                               (devices s2)\<rparr>
                    else s2);
              s4 = pushEvent
                     \<lparr>ev_id = eid,
                      ev_timestamp = now,
                      ev_attackName = def_name definition,
                      ev_attackType = def_id definition,
                      ev_severity = def_severity definition,
                      ev_targetDeviceId = targetDeviceId,
                      ev_blocked = blocked,
                      ev_message =
                        (if blocked
                         then def_shortName definition @ '' attack on ''
                              @ show_target targetDeviceId @ '' blocked by protocol.''
                         else def_shortName definition @ '' attack on ''
                              @ show_target targetDeviceId @ '' succeeded!'')\<rparr> s3;
              prev = stats s4;
              total' = totalAttacks prev + 1;
              totalBlocked = blockedAttacks prev + (if blocked then 1 else 0);
              threats = (if blocked then activeThreats prev else activeThreats prev + 1);
              cutoff = now2 - 60000;
              ts = filter (\<lambda>t. t > cutoff) (attackTimestamps s4)
          in s4\<lparr>attackTimestamps := ts,
                stats := \<lparr>totalAttacks = total',
                          blockedAttacks = totalBlocked,
                          activeThreats = threats,
                          attacksPerMinute = int (length ts)\<rparr>\<rparr>)"

text \<open>\<open>stopAttack(attackId)\<close>: the attack list and devices first, then the stats.\<close>

definition stopAttack :: "string \<Rightarrow> simulation \<Rightarrow> simulation" where
  "stopAttack attackId s =
     (let prev = activeAttacks s;
          s1 = (case find (\<lambda>a. att_id a = attackId) prev of
                  None \<Rightarrow> s
                | Some target \<Rightarrow>
                    let remaining = filter (\<lambda>a. att_id a \<noteq> attackId) prev;
                        stillTargeted =
                          list_ex (\<lambda>a. att_targetDeviceId a = att_targetDeviceId target
                                        \<and> \<not> att_blocked a) remaining;
                        s0 = (if \<not> att_blocked target \<and> \<not> stillTargeted
                              then s\<lparr>devices :=
                                     map (\<lambda>d. if Some (dev_id d) = att_targetDeviceId target
                                               then d\<lparr>status := SECURE\<rparr> else d)
                                         (devices s)\<rparr>
                              else s)
                    in s0\<lparr>activeAttacks := remaining\<rparr>)
      in s1\<lparr>stats := (stats s1)\<lparr>activeThreats := max 0 (activeThreats (stats s1) - 1)\<rparr>\<rparr>)"

text \<open>
  \<open>toggleProtocol()\<close>; \<open>eid\<close> and \<open>now\<close> are the id and the timestamp of the logged event.
\<close>

definition toggleProtocol :: "string \<Rightarrow> int \<Rightarrow> simulation \<Rightarrow> simulation" where
  "toggleProtocol eid now s =
     (let next = \<not> protocolEnabled s;
          s1 = (if next
                then
                  let sa = s\<lparr>activeAttacks :=
                              map (\<lambda>a. a\<lparr>att_blocked := True\<rparr>) (activeAttacks s)\<rparr>;
                      sb = sa\<lparr>devices := map (\<lambda>d. d\<lparr>status := SECURE\<rparr>) (devices sa)\<rparr>;
                      sc = sb\<lparr>stats := (stats sb)
                              \<lparr>activeThreats := 0,
                               blockedAttacks :=
                                 blockedAttacks (stats sb) + activeThreats (stats sb)\<rparr>\<rparr>
                  in pushEvent
                       \<lparr>ev_id = eid, ev_timestamp = now, ev_attackName = ''Protocol'',
                        ev_attackType = ''system'', ev_severity = ''info'',
                        ev_targetDeviceId = None, ev_blocked = False,
                        ev_message = ''Security protocol ENABLED '' @ em_dash
                          @ '' all active threats neutralized.''\<rparr> sc
                else
                  pushEvent
                    \<lparr>ev_id = eid, ev_timestamp = now, ev_attackName = ''Protocol'',
                     ev_attackType = ''system'', ev_severity = ''high'',
                     ev_targetDeviceId = None, ev_blocked = False,
                     ev_message = ''Security protocol DISABLED '' @ em_dash
                       @ '' devices are now vulnerable.''\<rparr> s)
      in s1\<lparr>protocolEnabled := next\<rparr>)"

definition clearEvents :: "simulation \<Rightarrow> simulation" where
  "clearEvents s = s\<lparr>events := []\<rparr>"

text \<open>
  The callback of the autonomous loop: a random definition, then \<open>startAttack\<close> with its
  id. Were \<open>randomElement\<close> to return \<open>undefined\<close>, reading its \<open>.id\<close> would throw a
  \<open>TypeError\<close>.
\<close>

definition autoAttack ::
  "real \<Rightarrow> real \<Rightarrow> string \<Rightarrow> string \<Rightarrow> int \<Rightarrow> int \<Rightarrow> simulation \<Rightarrow> error + simulation" where
  "autoAttack r0 r aid eid now now2 s =
     (case randomElement attackDefinitions r0 of
        None \<Rightarrow> Inl TypeError
      | Some definition \<Rightarrow> Inr (startAttack (def_id definition) r aid eid now now2 s))"

subsection \<open>Reachable engine states\<close>

text \<open>
  The states the engine can be in: the initial one, and those any action leads to from a
  reachable one, whatever the draws, the generated ids and the clock readings are.
\<close>

inductive reachable :: "simulation \<Rightarrow> bool" where
  r_init: "reachable initialState"
| r_start: "reachable s \<Longrightarrow> reachable (startAttack attackType r aid eid now now2 s)"
| r_stop: "reachable s \<Longrightarrow> reachable (stopAttack attackId s)"
| r_toggle: "reachable s \<Longrightarrow> reachable (toggleProtocol eid now s)"
| r_clear: "reachable s \<Longrightarrow> reachable (clearEvents s)"

text \<open>
  \<open>generateId()\<close> draws 16 random hex digits. The states reached by runs in which the id
  drawn for a new attack is not the id of an attack still active (ids are
  collision-resistant within a session):
\<close>

inductive reachable_fresh :: "simulation \<Rightarrow> bool" where
  f_init: "reachable_fresh initialState"
| f_start: "reachable_fresh s \<Longrightarrow> aid \<notin> set (map att_id (activeAttacks s))
            \<Longrightarrow> reachable_fresh (startAttack attackType r aid eid now now2 s)"
| f_stop: "reachable_fresh s \<Longrightarrow> reachable_fresh (stopAttack attackId s)"
| f_toggle: "reachable_fresh s \<Longrightarrow> reachable_fresh (toggleProtocol eid now s)"
| f_clear: "reachable_fresh s \<Longrightarrow> reachable_fresh (clearEvents s)"

text \<open>
  Runs with two ghost values beside the state: the latest reading of the clock
  and every timestamp \<open>startAttack\<close> has pushed on the rolling window so far. The clock
  never runs backwards along such a run.
\<close>

inductive recorded_run :: "int \<Rightarrow> int list \<Rightarrow> simulation \<Rightarrow> bool" where
  rr_init: "recorded_run T [] initialState"
| rr_start: "recorded_run T rec s \<Longrightarrow> T \<le> now \<Longrightarrow> now \<le> now2
             \<Longrightarrow> find (\<lambda>a. def_id a = attackType) attackDefinitions \<noteq> None
             \<Longrightarrow> recorded_run now2 (rec @ [now]) (startAttack attackType r aid eid now now2 s)"
| rr_unknown: "recorded_run T rec s
             \<Longrightarrow> find (\<lambda>a. def_id a = attackType) attackDefinitions = None
             \<Longrightarrow> recorded_run T rec (startAttack attackType r aid eid now now2 s)"
| rr_stop: "recorded_run T rec s \<Longrightarrow> recorded_run T rec (stopAttack attackId s)"
| rr_toggle: "recorded_run T rec s \<Longrightarrow> T \<le> now
             \<Longrightarrow> recorded_run now rec (toggleProtocol eid now s)"
| rr_clear: "recorded_run T rec s \<Longrightarrow> recorded_run T rec (clearEvents s)"

subsection \<open>Properties of a state\<close>

text \<open>The active attacks that are not blocked and target device \<open>d\<close>.\<close>

definition unblockedOn :: "simulation \<Rightarrow> device \<Rightarrow> attack list" where
  "unblockedOn s d =
     filter (\<lambda>a. \<not> att_blocked a \<and> att_targetDeviceId a = Some (dev_id d)) (activeAttacks s)"

text \<open>
  Status consistency with the severity clause: a device no unblocked attack targets is
  secure; one that some unblocked attack targets is compromised when such an attack is
  critical and in warning otherwise.
\<close>

definition status_by_severity :: "simulation \<Rightarrow> bool" where
  "status_by_severity s =
     list_all (\<lambda>d. status d =
                 (if unblockedOn s d = [] then SECURE
                  else if list_ex (\<lambda>a. att_severity a = ''critical'') (unblockedOn s d)
                  then COMPROMISED else WARNING))
       (devices s)"

text \<open>Status consistency without it: not secure exactly when an unblocked attack targets it.\<close>

definition status_consistent :: "simulation \<Rightarrow> bool" where
  "status_consistent s =
     list_all (\<lambda>d. (status d = COMPROMISED \<or> status d = WARNING) = (unblockedOn s d \<noteq> [])
                  \<and> (unblockedOn s d = [] \<longrightarrow> status d = SECURE))
       (devices s)"

text \<open>The number of active attacks that are not blocked.\<close>

definition unblockedCount :: "simulation \<Rightarrow> int" where
  "unblockedCount s = int (length (filter (\<lambda>a. \<not> att_blocked a) (activeAttacks s)))"

section \<open>The state distribution layer (context/SimulationContext.jsx)\<close>

text \<open>
  \<open>useContext(SimulationContext)\<close>: the \<open>value\<close> of the enclosing provider, or the default
  \<open>null\<close> (\<open>None\<close>) of \<open>createContext(null)\<close> when there is no provider. The argument is
  \<open>None\<close> without a provider and \<open>Some v\<close> under a provider whose \<open>value\<close> prop is \<open>v\<close>.
\<close>

definition useContext :: "'a option option \<Rightarrow> 'a option" where
  "useContext provider = (case provider of None \<Rightarrow> None | Some v \<Rightarrow> v)"

definition useSimulationContext :: "'a option option \<Rightarrow> error + 'a" where
  "useSimulationContext provider =
     (let context = useContext provider
      in case context of
           None \<Rightarrow>
             Inl (Error (''useSimulationContext must be used within a <SimulationProvider>. ''
                         @ ''Wrap your component tree with <Layout> or <SimulationProvider>.''))
         | Some v \<Rightarrow> Inr v)"

section \<open>Scenario states\<close>

text \<open>Scenario A: a denial-of-service attack while the protocol is enabled.\<close>

definition scenario_A :: simulation where
  "scenario_A = startAttack DOS 0 ''00000000000000a1'' ''00000000000000e1'' 1000 1000 initialState"

text \<open>The protocol switched off in the initial state.\<close>

definition scenario_off :: simulation where
  "scenario_off = toggleProtocol ''00000000000000e0'' 0 initialState"

text \<open>Scenario B: then a firmware exploit (critical), which hits the motion sensor.\<close>

definition scenario_B :: simulation where
  "scenario_B = startAttack FIRMWARE_EXPLOIT 0 ''00000000000000a1'' ''00000000000000e1'' 1000 1000 scenario_off"

text \<open>
  Two unblocked attacks on the camera: a brute-force attack (high), then a
  man-in-the-middle attack (critical).
\<close>

definition two_on_camera :: simulation where
  "two_on_camera =
     startAttack MITM (1 / 2) ''00000000000000a2'' ''00000000000000e2'' 2000 2000
       (startAttack BRUTE_FORCE 0 ''00000000000000a1'' ''00000000000000e1'' 1000 1000 scenario_off)"

text \<open>The critical one of the two stopped.\<close>

definition critical_stopped :: simulation where
  "critical_stopped = stopAttack ''00000000000000a2'' two_on_camera"

text \<open>
  A blocked attack (Scenario A), the protocol switched off, then an unblocked brute-force
  attack on the camera.
\<close>

definition blocked_and_unblocked :: simulation where
  "blocked_and_unblocked =
     startAttack BRUTE_FORCE 0 ''00000000000000a2'' ''00000000000000e3'' 3000 3000 (toggleProtocol ''00000000000000e2'' 2000 scenario_A)"

text \<open>Attacks at 1 s and 31 s on the clock, the protocol enabled.\<close>

definition two_recorded :: simulation where
  "two_recorded =
     startAttack DOS 0 ''00000000000000a2'' ''00000000000000e2'' 31000 31000
       (startAttack DOS 0 ''00000000000000a1'' ''00000000000000e1'' 1000 1000 initialState)"

text \<open>The protocol toggled \<open>n\<close> times, at the clock readings \<open>0, 1, ..., n - 1\<close>.\<close>

fun toggled :: "nat \<Rightarrow> simulation" where
  "toggled 0 = initialState"
| "toggled (Suc n) = toggleProtocol ''00000000000000ee'' (int n) (toggled n)"

definition sample_event :: event where
  "sample_event =
     \<lparr>ev_id = ''00000000000000ff'', ev_timestamp = 50, ev_attackName = ''Protocol'',
      ev_attackType = ''system'', ev_severity = ''info'', ev_targetDeviceId = None,
      ev_blocked = False, ev_message = ''sample''\<rparr>"

section \<open>Lemmas\<close>

subsection \<open>Evaluation rules\<close>

lemmas ATTACK_TYPES =
  BRUTE_FORCE_def MITM_def UNAUTHORIZED_ACCESS_def DOS_def REPLAY_def FIRMWARE_EXPLOIT_def

subsection \<open>What each action does to each part of the state\<close>

lemma activeAttacks_pushEvent [simp]: "activeAttacks (pushEvent e s) = activeAttacks s"
  and devices_pushEvent [simp]: "devices (pushEvent e s) = devices s"
  and stats_pushEvent [simp]: "stats (pushEvent e s) = stats s"
  and protocolEnabled_pushEvent [simp]: "protocolEnabled (pushEvent e s) = protocolEnabled s"
  and attackTimestamps_pushEvent [simp]: "attackTimestamps (pushEvent e s) = attackTimestamps s"
  and events_pushEvent: "events (pushEvent e s) = take MAX_EVENTS (e # events s)"
  by (simp_all add: pushEvent_def)

lemma startAttack_unknown:
  "find (\<lambda>a. def_id a = attackType) attackDefinitions = None
   \<Longrightarrow> startAttack attackType r aid eid now now2 s = s"
  by (simp add: startAttack_def)

lemma activeAttacks_startAttack:
  "find (\<lambda>a. def_id a = attackType) attackDefinitions = Some d
   \<Longrightarrow> activeAttacks (startAttack attackType r aid eid now now2 s) =
       activeAttacks s @
         [\<lparr>att_id = aid, att_type = def_id d, att_name = def_name d,
           att_shortName = def_shortName d, att_severity = def_severity d,
           att_color = def_color d,
           att_targetDeviceId = randomElement (def_targetDevices d) r,
           att_blocked = protocolEnabled s, att_timestamp = now\<rparr>]"
  by (simp add: startAttack_def Let_def)

lemma devices_startAttack:
  "find (\<lambda>a. def_id a = attackType) attackDefinitions = Some d
   \<Longrightarrow> devices (startAttack attackType r aid eid now now2 s) =
       (if protocolEnabled s then devices s
        else map (\<lambda>dv. if Some (dev_id dv) \<noteq> randomElement (def_targetDevices d) r then dv
                        else dv\<lparr>status := (if def_severity d = ''critical''
                                             then COMPROMISED else WARNING)\<rparr>)
               (devices s))"
  by (simp add: startAttack_def Let_def)

lemma events_startAttack:
  "find (\<lambda>a. def_id a = attackType) attackDefinitions = Some d
   \<Longrightarrow> \<exists>e. events (startAttack attackType r aid eid now now2 s) =
             take MAX_EVENTS (e # events s) \<and> ev_timestamp e = now"
  unfolding startAttack_def Let_def
  by (cases "protocolEnabled s") (simp_all add: events_pushEvent, (rule exI, rule conjI, rule refl, simp)+)

lemma attackTimestamps_startAttack:
  "find (\<lambda>a. def_id a = attackType) attackDefinitions = Some d
   \<Longrightarrow> attackTimestamps (startAttack attackType r aid eid now now2 s) =
       filter (\<lambda>t. t > now2 - 60000) (attackTimestamps s @ [now])"
  by (simp add: startAttack_def Let_def)

lemma stats_startAttack:
  "find (\<lambda>a. def_id a = attackType) attackDefinitions = Some d
   \<Longrightarrow> stats (startAttack attackType r aid eid now now2 s) =
      \<lparr>totalAttacks = totalAttacks (stats s) + 1,
       blockedAttacks = blockedAttacks (stats s) + (if protocolEnabled s then 1 else 0),
       activeThreats = (if protocolEnabled s then activeThreats (stats s)
                        else activeThreats (stats s) + 1),
       attacksPerMinute =
         int (length (filter (\<lambda>t. t > now2 - 60000) (attackTimestamps s @ [now])))\<rparr>"
  by (simp add: startAttack_def Let_def)

lemma protocolEnabled_startAttack [simp]:
  "protocolEnabled (startAttack attackType r aid eid now now2 s) = protocolEnabled s"
  by (simp add: startAttack_def Let_def split: option.split)

lemma activeAttacks_stopAttack:
  "activeAttacks (stopAttack attackId s) = filter (\<lambda>a. att_id a \<noteq> attackId) (activeAttacks s)"
proof (cases "find (\<lambda>a. att_id a = attackId) (activeAttacks s)")
  case None
  then have "\<forall>a\<in>set (activeAttacks s). att_id a \<noteq> attackId"
    by (simp add: find_None_iff)
  then have "filter (\<lambda>a. att_id a \<noteq> attackId) (activeAttacks s) = activeAttacks s"
    by simp
  with None show ?thesis by (simp add: stopAttack_def Let_def)
next
  case (Some t)
  then show ?thesis by (simp add: stopAttack_def Let_def)
qed

lemma devices_stopAttack_None:
  "find (\<lambda>a. att_id a = attackId) (activeAttacks s) = None
   \<Longrightarrow> devices (stopAttack attackId s) = devices s"
  by (simp add: stopAttack_def Let_def)

lemma devices_stopAttack_Some:
  "find (\<lambda>a. att_id a = attackId) (activeAttacks s) = Some target
   \<Longrightarrow> devices (stopAttack attackId s) =
      (if \<not> att_blocked target
          \<and> \<not> list_ex (\<lambda>a. att_targetDeviceId a = att_targetDeviceId target \<and> \<not> att_blocked a)
                 (filter (\<lambda>a. att_id a \<noteq> attackId) (activeAttacks s))
       then map (\<lambda>d. if Some (dev_id d) = att_targetDeviceId target
                      then d\<lparr>status := SECURE\<rparr> else d) (devices s)
       else devices s)"
  by (simp add: stopAttack_def Let_def)

lemma events_stopAttack [simp]: "events (stopAttack attackId s) = events s"
  and protocolEnabled_stopAttack [simp]:
    "protocolEnabled (stopAttack attackId s) = protocolEnabled s"
  and attackTimestamps_stopAttack [simp]:
    "attackTimestamps (stopAttack attackId s) = attackTimestamps s"
  by (simp_all add: stopAttack_def Let_def split: option.split)

lemma stats_stopAttack:
  "stats (stopAttack attackId s) =
     (stats s)\<lparr>activeThreats := max 0 (activeThreats (stats s) - 1)\<rparr>"
  by (simp add: stopAttack_def Let_def split: option.split)

lemma activeAttacks_toggleProtocol:
  "activeAttacks (toggleProtocol eid now s) =
     (if protocolEnabled s then activeAttacks s
      else map (\<lambda>a. a\<lparr>att_blocked := True\<rparr>) (activeAttacks s))"
  by (simp add: toggleProtocol_def Let_def)

lemma devices_toggleProtocol:
  "devices (toggleProtocol eid now s) =
     (if protocolEnabled s then devices s
      else map (\<lambda>d. d\<lparr>status := SECURE\<rparr>) (devices s))"
  by (simp add: toggleProtocol_def Let_def)

lemma stats_toggleProtocol:
  "stats (toggleProtocol eid now s) =
     (if protocolEnabled s then stats s
      else (stats s)\<lparr>activeThreats := 0,
                     blockedAttacks := blockedAttacks (stats s) + activeThreats (stats s)\<rparr>)"
  by (simp add: toggleProtocol_def Let_def)

lemma protocolEnabled_toggleProtocol [simp]:
  "protocolEnabled (toggleProtocol eid now s) = (\<not> protocolEnabled s)"
  and attackTimestamps_toggleProtocol [simp]:
  "attackTimestamps (toggleProtocol eid now s) = attackTimestamps s"
  by (simp_all add: toggleProtocol_def Let_def)

lemma events_toggleProtocol_length:
  "length (events (toggleProtocol eid now s)) \<le> MAX_EVENTS"
  by (simp add: toggleProtocol_def Let_def events_pushEvent)

lemma clearEvents_simps [simp]:
  "devices (clearEvents s) = devices s"
  "activeAttacks (clearEvents s) = activeAttacks s"
  "protocolEnabled (clearEvents s) = protocolEnabled s"
  "stats (clearEvents s) = stats s"
  "attackTimestamps (clearEvents s) = attackTimestamps s"
  "events (clearEvents s) = []"
  by (simp_all add: clearEvents_def)

lemma events_toggleProtocol:
  "\<exists>e. events (toggleProtocol eid now s) = take MAX_EVENTS (e # events s)
       \<and> ev_timestamp e = now"
  unfolding toggleProtocol_def Let_def
  by (cases "protocolEnabled s") (simp_all add: events_pushEvent, (rule exI, rule conjI, rule refl, simp)+)

subsection \<open>Event log\<close>

lemma reachable_events_le: "reachable s \<Longrightarrow> length (events s) \<le> MAX_EVENTS"
proof (induction rule: reachable.induct)
  case r_init
  show ?case by (simp add: initialState_def)
next
  case (r_start s attackType r aid eid now now2)
  show ?case
  proof (cases "find (\<lambda>a. def_id a = attackType) attackDefinitions")
    case None
    with r_start.IH show ?thesis by (simp add: startAttack_unknown)
  next
    case (Some d)
    from events_startAttack [OF Some, of r aid eid now now2 s]
    show ?thesis by auto
  qed
next
  case (r_stop s attackId)
  then show ?case by simp
next
  case (r_toggle s eid now)
  show ?case by (rule events_toggleProtocol_length)
next
  case (r_clear s)
  show ?case by simp
qed

subsection \<open>Identifiers of active attacks\<close>

lemma fresh_reachable: "reachable_fresh s \<Longrightarrow> reachable s"
  by (induction rule: reachable_fresh.induct) (simp_all add: reachable.intros)

lemma fresh_distinct_ids: "reachable_fresh s \<Longrightarrow> distinct (map att_id (activeAttacks s))"
proof (induction rule: reachable_fresh.induct)
  case f_init
  show ?case by (simp add: initialState_def)
next
  case (f_start s aid attackType r eid now now2)
  show ?case
  proof (cases "find (\<lambda>a. def_id a = attackType) attackDefinitions")
    case None
    with f_start.IH show ?thesis by (simp add: startAttack_unknown)
  next
    case (Some d)
    with f_start.IH f_start.hyps(2) show ?thesis
      by (simp add: activeAttacks_startAttack)
  qed
next
  case (f_stop s attackId)
  then show ?case by (simp add: activeAttacks_stopAttack distinct_map_filter)
next
  case (f_toggle s eid now)
  then show ?case by (simp add: activeAttacks_toggleProtocol comp_def)
next
  case (f_clear s)
  then show ?case by simp
qed

subsection \<open>Status consistency\<close>

lemma status_consistent_iff:
  "status_consistent s \<longleftrightarrow>
     (\<forall>d\<in>set (devices s).
        (status d \<noteq> SECURE) =
        (\<exists>a\<in>set (activeAttacks s). \<not> att_blocked a \<and> att_targetDeviceId a = Some (dev_id d)))"
proof -
  have "(status d = COMPROMISED \<or> status d = WARNING) = (status d \<noteq> SECURE)" for d :: device
    by (cases "status d") simp_all
  then show ?thesis
    unfolding status_consistent_def list_all_iff unblockedOn_def filter_empty_conv
    by auto
qed

lemma status_consistent_startAttack:
  assumes "status_consistent s"
  shows "status_consistent (startAttack attackType r aid eid now now2 s)"
proof (cases "find (\<lambda>a. def_id a = attackType) attackDefinitions")
  case None
  with assms show ?thesis by (simp add: startAttack_unknown)
next
  case (Some d)
  show ?thesis
  proof (cases "protocolEnabled s")
    case True
    with assms Some show ?thesis
      by (simp add: status_consistent_iff activeAttacks_startAttack devices_startAttack)
  next
    case False
    with assms Some show ?thesis
      by (auto simp add: status_consistent_iff activeAttacks_startAttack devices_startAttack)
  qed
qed

lemma find_Some_unique:
  assumes "distinct (map f xs)" "find (\<lambda>a. f a = k) xs = Some t"
  shows "filter (\<lambda>a. f a \<noteq> k) xs = removeAll t xs" "t \<in> set xs" "f t = k"
proof -
  from assms(2) show t: "t \<in> set xs" and k: "f t = k"
    by (auto simp add: find_Some_iff)
  have "\<forall>a\<in>set xs. (f a \<noteq> k) = (a \<noteq> t)"
    using assms(1) t k by (auto simp add: distinct_map inj_on_def)
  then have "filter (\<lambda>a. f a \<noteq> k) xs = filter (\<lambda>a. a \<noteq> t) xs"
    by (intro filter_cong) auto
  then show "filter (\<lambda>a. f a \<noteq> k) xs = removeAll t xs"
    by (simp add: removeAll_filter_not_eq) (metis)
qed

lemma status_consistent_stopAttack:
  assumes inv: "status_consistent s" and dist: "distinct (map att_id (activeAttacks s))"
  shows "status_consistent (stopAttack attackId s)"
proof (cases "find (\<lambda>a. att_id a = attackId) (activeAttacks s)")
  case None
  then have "\<forall>a\<in>set (activeAttacks s). att_id a \<noteq> attackId"
    by (simp add: find_None_iff)
  then have "filter (\<lambda>a. att_id a \<noteq> attackId) (activeAttacks s) = activeAttacks s"
    by simp
  with inv None show ?thesis
    by (simp add: status_consistent_iff activeAttacks_stopAttack devices_stopAttack_None)
next
  case (Some target)
  from find_Some_unique [OF dist Some]
  have rem: "set (filter (\<lambda>a. att_id a \<noteq> attackId) (activeAttacks s))
             = set (activeAttacks s) - {target}"
    and tin: "target \<in> set (activeAttacks s)"
    by simp_all
  show ?thesis
  proof (cases "att_blocked target")
    case True
    with inv Some rem show ?thesis
      by (auto simp add: status_consistent_iff activeAttacks_stopAttack devices_stopAttack_Some)
  next
    case False
    show ?thesis
    proof (cases "list_ex (\<lambda>a. att_targetDeviceId a = att_targetDeviceId target \<and> \<not> att_blocked a)
                 (filter (\<lambda>a. att_id a \<noteq> attackId) (activeAttacks s))")
      case True
      then obtain b where b: "b \<in> set (activeAttacks s) - {target}"
        "att_targetDeviceId b = att_targetDeviceId target" "\<not> att_blocked b"
        unfolding list_ex_iff rem by blast
      have "devices (stopAttack attackId s) = devices s"
        using Some True by (simp add: devices_stopAttack_Some)
      moreover have "(\<exists>a\<in>set (activeAttacks s) - {target}. \<not> att_blocked a \<and> att_targetDeviceId a = Some i)
         = (\<exists>a\<in>set (activeAttacks s). \<not> att_blocked a \<and> att_targetDeviceId a = Some i)" for i
        using b by (cases "att_targetDeviceId target = Some i") auto
      ultimately show ?thesis
        using inv unfolding status_consistent_iff activeAttacks_stopAttack rem by simp
    next
      case nst: False
      then have none: "\<forall>a\<in>set (activeAttacks s) - {target}.
          \<not> (att_targetDeviceId a = att_targetDeviceId target \<and> \<not> att_blocked a)"
        unfolding list_ex_iff rem by blast
      have dv: "devices (stopAttack attackId s) =
          map (\<lambda>d. if Some (dev_id d) = att_targetDeviceId target
                      then d\<lparr>status := SECURE\<rparr> else d) (devices s)"
        using Some False nst by (simp add: devices_stopAttack_Some)
      show ?thesis
        unfolding status_consistent_iff dv activeAttacks_stopAttack rem
      proof
        fix d' assume "d' \<in> set (map (\<lambda>d. if Some (dev_id d) = att_targetDeviceId target
                      then d\<lparr>status := SECURE\<rparr> else d) (devices s))"
        then obtain d where d: "d \<in> set (devices s)"
          and d': "d' = (if Some (dev_id d) = att_targetDeviceId target
                      then d\<lparr>status := SECURE\<rparr> else d)" by auto
        show "(status d' \<noteq> SECURE) =
          (\<exists>a\<in>set (activeAttacks s) - {target}. \<not> att_blocked a \<and> att_targetDeviceId a = Some (dev_id d'))"
        proof (cases "Some (dev_id d) = att_targetDeviceId target")
          case True
          with d' none show ?thesis by auto
        next
          case ne: False
          then have "(\<exists>a\<in>set (activeAttacks s) - {target}. \<not> att_blocked a \<and> att_targetDeviceId a = Some (dev_id d))
            = (\<exists>a\<in>set (activeAttacks s). \<not> att_blocked a \<and> att_targetDeviceId a = Some (dev_id d))"
            by auto
          with ne d' d inv show ?thesis by (simp add: status_consistent_iff)
        qed
      qed
    qed
  qed
qed

lemma status_consistent_toggleProtocol:
  assumes "status_consistent s"
  shows "status_consistent (toggleProtocol eid now s)"
  using assms
  by (auto simp add: status_consistent_iff activeAttacks_toggleProtocol devices_toggleProtocol)

lemma status_consistent_clearEvents:
  "status_consistent s \<Longrightarrow> status_consistent (clearEvents s)"
  by (simp add: status_consistent_iff)

lemma status_consistent_initialState: "status_consistent initialState"
  by (simp add: status_consistent_iff initialState_def buildInitialDevices_def
      initialDevices_def device_info.extend_def device.fields_def)

lemma fresh_status_consistent: "reachable_fresh s \<Longrightarrow> status_consistent s"
proof (induction rule: reachable_fresh.induct)
  case f_init
  show ?case by (rule status_consistent_initialState)
next
  case (f_start s aid attackType r eid now now2)
  then show ?case by (simp add: status_consistent_startAttack)
next
  case (f_stop s attackId)
  then show ?case by (simp add: status_consistent_stopAttack fresh_distinct_ids)
next
  case (f_toggle s eid now)
  then show ?case by (simp add: status_consistent_toggleProtocol)
next
  case (f_clear s)
  then show ?case by (simp add: status_consistent_clearEvents)
qed

subsection \<open>The devices stay those of the registry\<close>

lemma truncate_status_update:
  "map device_info.truncate (map (\<lambda>d. if P d then d\<lparr>status := v d\<rparr> else d) ds)
   = map device_info.truncate ds"
  by (induction ds) (simp_all add: device_info.truncate_def)

lemma truncate_devices_startAttack:
  "map device_info.truncate (devices (startAttack attackType r aid eid now now2 s))
   = map device_info.truncate (devices s)"
proof (cases "find (\<lambda>a. def_id a = attackType) attackDefinitions")
  case None
  then show ?thesis by (simp add: startAttack_unknown)
next
  case (Some d)
  have "map device_info.truncate
          (map (\<lambda>dv. if Some (dev_id dv) \<noteq> randomElement (def_targetDevices d) r then dv
                      else dv\<lparr>status := (if def_severity d = ''critical''
                                           then COMPROMISED else WARNING)\<rparr>) (devices s))
        = map device_info.truncate (devices s)"
    by (induction "devices s") (simp_all add: device_info.truncate_def)
  with Some show ?thesis by (simp add: devices_startAttack)
qed

lemma truncate_devices_stopAttack:
  "map device_info.truncate (devices (stopAttack attackId s))
   = map device_info.truncate (devices s)"
proof (cases "find (\<lambda>a. att_id a = attackId) (activeAttacks s)")
  case None
  then show ?thesis by (simp add: devices_stopAttack_None)
next
  case (Some target)
  have "map device_info.truncate
          (map (\<lambda>d. if Some (dev_id d) = att_targetDeviceId target
                     then d\<lparr>status := SECURE\<rparr> else d) (devices s))
        = map device_info.truncate (devices s)"
    by (rule truncate_status_update)
  with Some show ?thesis by (simp add: devices_stopAttack_Some)
qed

lemma truncate_devices_toggleProtocol:
  "map device_info.truncate (devices (toggleProtocol eid now s))
   = map device_info.truncate (devices s)"
  by (simp add: devices_toggleProtocol device_info.truncate_def)

lemma reachable_registry_devices:
  "reachable s \<Longrightarrow> map device_info.truncate (devices s) = initialDevices"
proof (induction rule: reachable.induct)
  case r_init
  show ?case
    by (simp add: initialState_def buildInitialDevices_def initialDevices_def
        device_info.extend_def device.fields_def device_info.truncate_def)
next
  case (r_start s attackType r aid eid now now2)
  then show ?case by (simp add: truncate_devices_startAttack)
next
  case (r_stop s attackId)
  then show ?case by (simp add: truncate_devices_stopAttack)
next
  case (r_toggle s eid now)
  then show ?case by (simp add: truncate_devices_toggleProtocol)
next
  case (r_clear s)
  then show ?case by simp
qed

subsection \<open>Runs with a clock\<close>

lemma recorded_run_window:
  "recorded_run T rec s
   \<Longrightarrow> \<exists>C. C \<le> T - 60000 \<and> attackTimestamps s = filter (\<lambda>t. t > C) rec"
proof (induction rule: recorded_run.induct)
  case (rr_init T)
  have "T - 60000 \<le> T - 60000 \<and> attackTimestamps initialState = filter (\<lambda>t. t > T - 60000) []"
    by (simp add: initialState_def)
  then show ?case by blast
next
  case (rr_start T rec s now now2 attackType r aid eid)
  from rr_start.IH obtain C where C: "C \<le> T - 60000"
    and ts: "attackTimestamps s = filter (\<lambda>t. t > C) rec" by blast
  from rr_start.hyps(4) obtain d where d: "find (\<lambda>a. def_id a = attackType) attackDefinitions = Some d"
    by auto
  have le: "C \<le> now2 - 60000" using C rr_start.hyps(2,3) by simp
  then have "(C < t \<and> now2 - 60000 < t) = (now2 - 60000 < t)" for t by auto
  then have "attackTimestamps (startAttack attackType r aid eid now now2 s)
      = filter (\<lambda>t. t > now2 - 60000) (rec @ [now])"
    by (simp add: attackTimestamps_startAttack [OF d] ts)
  then show ?case by blast
next
  case (rr_unknown T rec s attackType r aid eid now now2)
  then show ?case by (simp add: startAttack_unknown)
next
  case (rr_stop T rec s attackId)
  then show ?case by simp
next
  case (rr_toggle T rec s now eid)
  then obtain C where "C \<le> T - 60000" "attackTimestamps s = filter (\<lambda>t. t > C) rec"
    by blast
  with rr_toggle.hyps(2) have "C \<le> now - 60000
      \<and> attackTimestamps (toggleProtocol eid now s) = filter (\<lambda>t. t > C) rec"
    by simp
  then show ?case by blast
next
  case (rr_clear T rec s)
  then show ?case by simp
qed

lemma sorted_take_Cons:
  fixes x :: int
  assumes "sorted_wrt (\<ge>) xs" "\<forall>y\<in>set xs. y \<le> x"
  shows "sorted_wrt (\<ge>) (take n (x # xs))" "\<forall>y\<in>set (take n (x # xs)). y \<le> x"
proof -
  from assms have "sorted_wrt (\<ge>) (x # xs)" by simp
  then show "sorted_wrt (\<ge>) (take n (x # xs))" by (rule sorted_wrt_take)
  from assms(2) show "\<forall>y\<in>set (take n (x # xs)). y \<le> x"
    by (auto dest!: in_set_takeD)
qed

lemma recorded_run_events_sorted:
  "recorded_run T rec s
   \<Longrightarrow> sorted_wrt (\<ge>) (map ev_timestamp (events s))
       \<and> (\<forall>t\<in>set (map ev_timestamp (events s)). t \<le> T)"
proof (induction rule: recorded_run.induct)
  case (rr_init T)
  show ?case by (simp add: initialState_def)
next
  case (rr_start T rec s now now2 attackType r aid eid)
  from rr_start.hyps(4) obtain d where d: "find (\<lambda>a. def_id a = attackType) attackDefinitions = Some d"
    by auto
  from events_startAttack [OF d, of r aid eid now now2 s] obtain e
    where e: "events (startAttack attackType r aid eid now now2 s) = take MAX_EVENTS (e # events s)"
      "ev_timestamp e = now" by blast
  have m: "map ev_timestamp (events (startAttack attackType r aid eid now now2 s))
      = take MAX_EVENTS (now # map ev_timestamp (events s))"
    by (simp add: e take_map [symmetric])
  from rr_start.IH rr_start.hyps(2) have "sorted_wrt (\<ge>) (map ev_timestamp (events s))"
    "\<forall>y\<in>set (map ev_timestamp (events s)). y \<le> now" by auto
  from sorted_take_Cons [OF this] rr_start.hyps(3) show ?case
    unfolding m by fastforce
next
  case (rr_unknown T rec s attackType r aid eid now now2)
  then show ?case by (simp add: startAttack_unknown)
next
  case (rr_stop T rec s attackId)
  then show ?case by simp
next
  case (rr_toggle T rec s now eid)
  from events_toggleProtocol [of eid now s] obtain e
    where e: "events (toggleProtocol eid now s) = take MAX_EVENTS (e # events s)"
      "ev_timestamp e = now" by blast
  have m: "map ev_timestamp (events (toggleProtocol eid now s))
      = take MAX_EVENTS (now # map ev_timestamp (events s))"
    by (simp add: e take_map [symmetric])
  from rr_toggle.IH rr_toggle.hyps(2) have "sorted_wrt (\<ge>) (map ev_timestamp (events s))"
    "\<forall>y\<in>set (map ev_timestamp (events s)). y \<le> now" by auto
  from sorted_take_Cons [OF this] show ?case
    unfolding m by fastforce
next
  case (rr_clear T rec s)
  then show ?case by simp
qed

lemma reachable_toggled: "reachable (toggled n)"
  by (induction n) (simp_all add: r_init r_toggle)

lemma recorded_run_toggled: "recorded_run (int n - 1) [] (toggled n)"
proof (induction n)
  case 0
  show ?case by (simp add: rr_init)
next
  case (Suc n)
  from rr_toggle [OF Suc, of "int n" "''00000000000000ee''"] show ?case by simp
qed

lemma toggled_timestamps:
  "map ev_timestamp (events (toggled n)) = take MAX_EVENTS (rev (map int [0..<n]))"
proof (induction n)
  case 0
  show ?case by (simp add: initialState_def)
next
  case (Suc n)
  from events_toggleProtocol [of "''00000000000000ee''" "int n" "toggled n"] obtain e
    where e: "events (toggleProtocol ''00000000000000ee'' (int n) (toggled n))
        = take MAX_EVENTS (e # events (toggled n))"
      "ev_timestamp e = int n" by auto
  have "map ev_timestamp (events (toggled (Suc n)))
      = take MAX_EVENTS (int n # take MAX_EVENTS (rev (map int [0..<n])))"
    by (simp add: e take_map [symmetric] Suc)
  also have "\<dots> = take MAX_EVENTS (int n # rev (map int [0..<n]))"
    by (simp add: MAX_EVENTS_def take_Cons')
  finally show ?case by simp
qed

lemma autoAttack_returns:
  assumes "0 \<le> r0" "r0 < 1"
  shows "\<exists>d\<in>set attackDefinitions.
           autoAttack r0 r aid eid now now2 s = Inr (startAttack (def_id d) r aid eid now now2 s)"
proof -
  define i where "i = \<lfloor>r0 * real (length attackDefinitions)\<rfloor>"
  have len: "length attackDefinitions = 6" by (simp add: attackDefinitions_def)
  have lo: "0 \<le> i" using assms(1) by (simp add: i_def)
  have hi: "i < int (length attackDefinitions)"
    using assms(2) by (simp add: i_def len floor_less_iff)
  from lo hi have "nat i < length attackDefinitions" by simp
  then have m: "attackDefinitions ! nat i \<in> set attackDefinitions" by (rule nth_mem)
  have "randomElement attackDefinitions r0 = Some (attackDefinitions ! nat i)"
    using lo hi unfolding randomElement_def Let_def i_def by simp
  then have "autoAttack r0 r aid eid now now2 s
      = Inr (startAttack (def_id (attackDefinitions ! nat i)) r aid eid now now2 s)"
    by (simp add: autoAttack_def)
  with m show ?thesis by blast
qed

lemma reachable_autoAttack:
  assumes "reachable s" "autoAttack r0 r aid eid now now2 s = Inr s'"
  shows "reachable s'"
  using assms
  by (cases "randomElement attackDefinitions r0") (auto simp add: autoAttack_def r_start)

subsection \<open>The scenario states are reachable\<close>

lemma fresh_scenario_off: "reachable_fresh scenario_off"
  unfolding scenario_off_def by (rule f_toggle [OF f_init])

lemma fresh_scenario_A: "reachable_fresh scenario_A"
  unfolding scenario_A_def by (rule f_start [OF f_init]) (simp add: initialState_def)

lemma fresh_scenario_B: "reachable_fresh scenario_B"
  unfolding scenario_B_def by (rule f_start [OF fresh_scenario_off]) code_simp

lemma fresh_two_on_camera: "reachable_fresh two_on_camera"
proof -
  have "reachable_fresh (startAttack BRUTE_FORCE 0 ''00000000000000a1'' ''00000000000000e1'' 1000 1000 scenario_off)"
    by (rule f_start [OF fresh_scenario_off]) code_simp
  then show ?thesis
    unfolding two_on_camera_def by (rule f_start) code_simp
qed

lemma fresh_critical_stopped: "reachable_fresh critical_stopped"
  unfolding critical_stopped_def by (rule f_stop [OF fresh_two_on_camera])

lemma fresh_blocked_and_unblocked: "reachable_fresh blocked_and_unblocked"
proof -
  have "reachable_fresh (toggleProtocol ''00000000000000e2'' 2000 scenario_A)"
    by (rule f_toggle [OF fresh_scenario_A])
  then show ?thesis
    unfolding blocked_and_unblocked_def by (rule f_start) code_simp
qed

lemma find_DOS:
  "find (\<lambda>a. def_id a = DOS) attackDefinitions \<noteq> None"
  by (simp add: attackDefinitions_def ATTACK_TYPES)

lemma recorded_run_two_recorded: "recorded_run 31000 [1000, 31000] two_recorded"
proof -
  from rr_start [OF rr_init [of 0], of 1000 1000 DOS 0 "''00000000000000a1''" "''00000000000000e1''"] find_DOS
  have "recorded_run 1000 [1000] (startAttack DOS 0 ''00000000000000a1'' ''00000000000000e1'' 1000 1000 initialState)"
    by simp
  from rr_start [OF this, of 31000 31000 DOS 0 "''00000000000000a2''" "''00000000000000e2''"] find_DOS
  show ?thesis by (simp add: two_recorded_def)
qed

section \<open>Claims\<close>

subsection \<open>Status consistency\<close>

text \<open>
  C1, as stated, fails. In \<open>critical_stopped\<close> the protocol was switched off, a brute-force
  attack (high) and a man-in-the-middle attack (critical) hit the camera, and the critical
  one was stopped. The state is reachable (with fresh ids), the only unblocked attack on
  the camera has severity high, and the camera is still compromised, where the claim has
  it in warning.
\<close>

theorem status_by_severity_counterexample:
  "reachable_fresh critical_stopped
   \<and> dev_id (devices critical_stopped ! 1) = ''camera-01''
   \<and> status (devices critical_stopped ! 1) = COMPROMISED
   \<and> map att_severity (unblockedOn critical_stopped (devices critical_stopped ! 1)) = [''high'']
   \<and> \<not> status_by_severity critical_stopped"
proof -
  have "dev_id (devices critical_stopped ! 1) = ''camera-01''" by code_simp
  moreover have "status (devices critical_stopped ! 1) = COMPROMISED" by code_simp
  moreover have "map att_severity (unblockedOn critical_stopped (devices critical_stopped ! 1))
      = [''high'']" by code_simp
  moreover have "\<not> status_by_severity critical_stopped" by code_simp
  ultimately show ?thesis using fresh_critical_stopped by simp
qed

text \<open>
  C1, amended: at every state reachable with fresh ids, a device is compromised or in
  warning exactly when at least one active attack with \<open>blocked = False\<close> targets it, and
  secure otherwise; \<open>startAttack\<close>, \<open>stopAttack\<close>, \<open>toggleProtocol\<close> and \<open>clearEvents\<close>
  preserve this. Which of the two values it is, is set when an unblocked attack starts:
  every device it targets becomes compromised if the attack's severity is critical and
  goes to warning otherwise. The devices are those of the registry throughout: the
  actions change the status of a device and nothing else.
\<close>

theorem status_consistency:
  "(reachable_fresh s \<longrightarrow> status_consistent s)
   \<and> (\<not> protocolEnabled s \<and> find (\<lambda>a. def_id a = attackType) attackDefinitions = Some d \<longrightarrow>
        list_all (\<lambda>dv. Some (dev_id dv) = randomElement (def_targetDevices d) r \<longrightarrow>
                     status dv = (if def_severity d = ''critical'' then COMPROMISED else WARNING))
          (devices (startAttack attackType r aid eid now now2 s)))
   \<and> (reachable_fresh s \<longrightarrow> map device_info.truncate (devices s) = initialDevices)
   \<and> map device_info.truncate (devices (startAttack attackType r aid eid now now2 s))
       = map device_info.truncate (devices s)
   \<and> map device_info.truncate (devices (stopAttack attackId s))
       = map device_info.truncate (devices s)"
proof (intro conjI impI)
  assume "reachable_fresh s"
  then show "status_consistent s" by (rule fresh_status_consistent)
next
  assume "reachable_fresh s"
  then have "reachable s" by (rule fresh_reachable)
  then show "map device_info.truncate (devices s) = initialDevices"
    by (rule reachable_registry_devices)
next
  show "map device_info.truncate (devices (startAttack attackType r aid eid now now2 s))
       = map device_info.truncate (devices s)"
    by (rule truncate_devices_startAttack)
next
  show "map device_info.truncate (devices (stopAttack attackId s))
       = map device_info.truncate (devices s)"
    by (rule truncate_devices_stopAttack)
next
  assume "\<not> protocolEnabled s \<and> find (\<lambda>a. def_id a = attackType) attackDefinitions = Some d"
  then show "list_all (\<lambda>dv. Some (dev_id dv) = randomElement (def_targetDevices d) r \<longrightarrow>
                     status dv = (if def_severity d = ''critical'' then COMPROMISED else WARNING))
          (devices (startAttack attackType r aid eid now now2 s))"
    by (auto simp add: devices_startAttack list_all_iff)
qed

theorem status_consistency_witness:
  "reachable_fresh critical_stopped \<and> status_consistent critical_stopped
   \<and> \<not> protocolEnabled scenario_off
   \<and> find (\<lambda>a. def_id a = FIRMWARE_EXPLOIT) attackDefinitions = Some (attackDefinitions ! 5)
   \<and> randomElement (def_targetDevices (attackDefinitions ! 5)) 0 = Some ''motion-01''
   \<and> def_severity (attackDefinitions ! 5) = ''critical''
   \<and> list_all (\<lambda>dv. dev_id dv = ''motion-01'' \<longrightarrow> status dv = COMPROMISED) (devices scenario_B)
   \<and> map device_info.truncate (devices critical_stopped) = initialDevices
   \<and> map (\<lambda>d. (dev_id d, status d)) (devices critical_stopped)
       = [(''router-01'', SECURE), (''camera-01'', COMPROMISED), (''lock-01'', SECURE),
          (''thermostat-01'', SECURE), (''motion-01'', SECURE), (''light-01'', SECURE)]
   \<and> map (\<lambda>d. (dev_id d, status d)) (devices scenario_B)
       = [(''router-01'', SECURE), (''camera-01'', SECURE), (''lock-01'', SECURE),
          (''thermostat-01'', SECURE), (''motion-01'', COMPROMISED), (''light-01'', SECURE)]"
proof -
  have off: "\<not> protocolEnabled scenario_off" by code_simp
  have f: "find (\<lambda>a. def_id a = FIRMWARE_EXPLOIT) attackDefinitions = Some (attackDefinitions ! 5)"
    by (simp add: attackDefinitions_def ATTACK_TYPES)
  have t: "randomElement (def_targetDevices (attackDefinitions ! 5)) 0 = Some ''motion-01''"
    by (simp add: attackDefinitions_def randomElement_def)
  have c: "def_severity (attackDefinitions ! 5) = ''critical''"
    by (simp add: attackDefinitions_def)
  have d1: "map (\<lambda>d. (dev_id d, status d)) (devices critical_stopped)
       = [(''router-01'', SECURE), (''camera-01'', COMPROMISED), (''lock-01'', SECURE),
          (''thermostat-01'', SECURE), (''motion-01'', SECURE), (''light-01'', SECURE)]"
    by code_simp
  have d2: "map (\<lambda>d. (dev_id d, status d)) (devices scenario_B)
       = [(''router-01'', SECURE), (''camera-01'', SECURE), (''lock-01'', SECURE),
          (''thermostat-01'', SECURE), (''motion-01'', COMPROMISED), (''light-01'', SECURE)]"
    by code_simp
  from status_consistency [where s = critical_stopped] fresh_critical_stopped
  have inv: "status_consistent critical_stopped"
    and reg: "map device_info.truncate (devices critical_stopped) = initialDevices"
    by blast+
  from status_consistency [where s = scenario_off and attackType = FIRMWARE_EXPLOIT
      and d = "attackDefinitions ! 5" and r = 0 and aid = "''00000000000000a1''"
      and eid = "''00000000000000e1''" and now = 1000 and ?now2.0 = 1000] off f
  have "list_all (\<lambda>dv. Some (dev_id dv) = randomElement (def_targetDevices (attackDefinitions ! 5)) 0 \<longrightarrow>
                     status dv = (if def_severity (attackDefinitions ! 5) = ''critical''
                                  then COMPROMISED else WARNING))
          (devices (startAttack FIRMWARE_EXPLOIT 0 ''00000000000000a1'' ''00000000000000e1''
                      1000 1000 scenario_off))"
    by blast
  then have "list_all (\<lambda>dv. dev_id dv = ''motion-01'' \<longrightarrow> status dv = COMPROMISED)
      (devices scenario_B)"
    unfolding t c scenario_B_def by simp
  with inv reg fresh_critical_stopped off f t c d1 d2 show ?thesis by simp
qed

subsection \<open>Toggle-on convergence\<close>

text \<open>
  C2: from any state in which the protocol is disabled (reachable or not), one call of
  \<open>toggleProtocol\<close> leaves the flag enabled and \<open>activeThreats = 0\<close>; the devices are the
  devices of the state before, in their order, each with its status set to secure and
  nothing else changed; the active attacks are the attacks of the state before, in their
  order, each with \<open>blocked\<close> set to true and nothing else changed. So every device is
  secure and every active attack is blocked, and none has been dropped.
\<close>

theorem toggle_on_convergence:
  assumes "\<not> protocolEnabled s"
  shows "protocolEnabled (toggleProtocol eid now s)
         \<and> activeThreats (stats (toggleProtocol eid now s)) = 0
         \<and> list_all (\<lambda>d. status d = SECURE) (devices (toggleProtocol eid now s))
         \<and> list_all att_blocked (activeAttacks (toggleProtocol eid now s))
         \<and> devices (toggleProtocol eid now s) = map (\<lambda>d. d\<lparr>status := SECURE\<rparr>) (devices s)
         \<and> map device_info.truncate (devices (toggleProtocol eid now s))
             = map device_info.truncate (devices s)
         \<and> map status (devices (toggleProtocol eid now s))
             = replicate (length (devices s)) SECURE
         \<and> activeAttacks (toggleProtocol eid now s)
             = map (\<lambda>a. a\<lparr>att_blocked := True\<rparr>) (activeAttacks s)
         \<and> map att_id (activeAttacks (toggleProtocol eid now s)) = map att_id (activeAttacks s)
         \<and> map att_targetDeviceId (activeAttacks (toggleProtocol eid now s))
             = map att_targetDeviceId (activeAttacks s)
         \<and> map att_blocked (activeAttacks (toggleProtocol eid now s))
             = replicate (length (activeAttacks s)) True"
proof -
  have d: "devices (toggleProtocol eid now s) = map (\<lambda>d. d\<lparr>status := SECURE\<rparr>) (devices s)"
    using assms by (simp add: devices_toggleProtocol)
  have a: "activeAttacks (toggleProtocol eid now s)
      = map (\<lambda>a. a\<lparr>att_blocked := True\<rparr>) (activeAttacks s)"
    using assms by (simp add: activeAttacks_toggleProtocol)
  have "map device_info.truncate (devices (toggleProtocol eid now s))
      = map device_info.truncate (devices s)"
    unfolding d by (simp add: device_info.truncate_def)
  moreover have "map status (devices (toggleProtocol eid now s))
      = replicate (length (devices s)) SECURE"
    unfolding d by (simp add: map_replicate_const comp_def)
  moreover have "map att_blocked (activeAttacks (toggleProtocol eid now s))
      = replicate (length (activeAttacks s)) True"
    unfolding a by (simp add: map_replicate_const comp_def)
  moreover have "map att_id (activeAttacks (toggleProtocol eid now s))
      = map att_id (activeAttacks s)"
    and "map att_targetDeviceId (activeAttacks (toggleProtocol eid now s))
      = map att_targetDeviceId (activeAttacks s)"
    unfolding a by simp_all
  moreover have "list_all (\<lambda>d. status d = SECURE) (devices (toggleProtocol eid now s))"
    unfolding d by (simp add: list_all_iff)
  moreover have "list_all att_blocked (activeAttacks (toggleProtocol eid now s))"
    unfolding a by (simp add: list_all_iff)
  moreover have "protocolEnabled (toggleProtocol eid now s)"
    and "activeThreats (stats (toggleProtocol eid now s)) = 0"
    using assms by (simp_all add: stats_toggleProtocol)
  ultimately show ?thesis using d a by simp
qed

text \<open>
  Scenario C of the specification: Scenario B (the motion sensor compromised by an
  unblocked firmware exploit), then the protocol switched on again.
\<close>

theorem toggle_on_convergence_witness:
  "\<not> protocolEnabled scenario_B
   \<and> map (\<lambda>d. (dev_id d, status d)) (devices scenario_B)
       = [(''router-01'', SECURE), (''camera-01'', SECURE), (''lock-01'', SECURE),
          (''thermostat-01'', SECURE), (''motion-01'', COMPROMISED), (''light-01'', SECURE)]
   \<and> activeThreats (stats scenario_B) = 1
   \<and> map (\<lambda>a. (att_id a, att_targetDeviceId a, att_blocked a)) (activeAttacks scenario_B)
       = [(''00000000000000a1'', Some ''motion-01'', False)]
   \<and> protocolEnabled (toggleProtocol ''00000000000000e2'' 2000 scenario_B)
   \<and> activeThreats (stats (toggleProtocol ''00000000000000e2'' 2000 scenario_B)) = 0
   \<and> map (\<lambda>d. (dev_id d, status d)) (devices (toggleProtocol ''00000000000000e2'' 2000 scenario_B))
       = [(''router-01'', SECURE), (''camera-01'', SECURE), (''lock-01'', SECURE),
          (''thermostat-01'', SECURE), (''motion-01'', SECURE), (''light-01'', SECURE)]
   \<and> map device_info.truncate (devices (toggleProtocol ''00000000000000e2'' 2000 scenario_B))
       = initialDevices
   \<and> map (\<lambda>a. (att_id a, att_targetDeviceId a, att_blocked a))
         (activeAttacks (toggleProtocol ''00000000000000e2'' 2000 scenario_B))
       = [(''00000000000000a1'', Some ''motion-01'', True)]"
proof -
  let ?t = "toggleProtocol ''00000000000000e2'' 2000 scenario_B"
  have off: "\<not> protocolEnabled scenario_B" by code_simp
  have dv: "map (\<lambda>d. (dev_id d, status d)) (devices scenario_B)
       = [(''router-01'', SECURE), (''camera-01'', SECURE), (''lock-01'', SECURE),
          (''thermostat-01'', SECURE), (''motion-01'', COMPROMISED), (''light-01'', SECURE)]"
    by code_simp
  have th: "activeThreats (stats scenario_B) = 1" by code_simp
  have at: "map (\<lambda>a. (att_id a, att_targetDeviceId a, att_blocked a)) (activeAttacks scenario_B)
       = [(''00000000000000a1'', Some ''motion-01'', False)]" by code_simp
  have tr: "map device_info.truncate (devices scenario_B) = initialDevices" by code_simp
  note c = toggle_on_convergence [OF off, of "''00000000000000e2''" 2000]
  from c have p: "protocolEnabled ?t" and z: "activeThreats (stats ?t) = 0"
    and d: "devices ?t = map (\<lambda>d. d\<lparr>status := SECURE\<rparr>) (devices scenario_B)"
    and t: "map device_info.truncate (devices ?t) = map device_info.truncate (devices scenario_B)"
    and a: "activeAttacks ?t = map (\<lambda>a. a\<lparr>att_blocked := True\<rparr>) (activeAttacks scenario_B)"
    by blast+
  have "map (\<lambda>d. (dev_id d, status d)) (devices ?t)
      = map (\<lambda>p. (fst p, SECURE)) (map (\<lambda>d. (dev_id d, status d)) (devices scenario_B))"
    unfolding d by simp
  then have dv': "map (\<lambda>d. (dev_id d, status d)) (devices ?t)
       = [(''router-01'', SECURE), (''camera-01'', SECURE), (''lock-01'', SECURE),
          (''thermostat-01'', SECURE), (''motion-01'', SECURE), (''light-01'', SECURE)]"
    unfolding dv by simp
  have "map (\<lambda>a. (att_id a, att_targetDeviceId a, att_blocked a)) (activeAttacks ?t)
      = map (\<lambda>p. (fst p, fst (snd p), True))
          (map (\<lambda>a. (att_id a, att_targetDeviceId a, att_blocked a)) (activeAttacks scenario_B))"
    unfolding a by simp
  then have at': "map (\<lambda>a. (att_id a, att_targetDeviceId a, att_blocked a)) (activeAttacks ?t)
       = [(''00000000000000a1'', Some ''motion-01'', True)]"
    unfolding at by simp
  from off dv th at p z dv' at' t tr show ?thesis by simp
qed

subsection \<open>Stopping with a stale id\<close>

text \<open>
  C3 fails on the code. \<open>critical_stopped\<close> is \<open>stopAttack\<close> of the id ending in \<open>a2\<close>,
  applied to a state with two unblocked attacks (ids ending in \<open>a1\<close> and \<open>a2\<close>). A second
  \<open>stopAttack\<close> with the same id finds no attack with that id and leaves the attack list
  as it is, yet \<open>activeThreats\<close> drops from 1 to 0 while the unblocked attack \<open>a1\<close> is
  still active: the decrement of the stats is not guarded by the lookup.
\<close>

theorem stopAttack_stale_id_decrements:
  "''00000000000000a2'' \<notin> set (map att_id (activeAttacks critical_stopped))
   \<and> activeThreats (stats critical_stopped) = 1
   \<and> activeAttacks (stopAttack ''00000000000000a2'' critical_stopped) = activeAttacks critical_stopped
   \<and> map att_blocked (activeAttacks (stopAttack ''00000000000000a2'' critical_stopped)) = [False]
   \<and> activeThreats (stats (stopAttack ''00000000000000a2'' critical_stopped)) = 0
   \<and> stopAttack ''00000000000000a2'' critical_stopped \<noteq> critical_stopped"
proof -
  have a: "''00000000000000a2'' \<notin> set (map att_id (activeAttacks critical_stopped))" by code_simp
  have b: "activeThreats (stats critical_stopped) = 1" by code_simp
  have c: "activeAttacks (stopAttack ''00000000000000a2'' critical_stopped) = activeAttacks critical_stopped"
  proof -
    from a have "\<forall>x\<in>set (activeAttacks critical_stopped). att_id x \<noteq> ''00000000000000a2''"
      by (metis image_eqI set_map)
    then show ?thesis by (simp add: activeAttacks_stopAttack)
  qed
  have d: "map att_blocked (activeAttacks (stopAttack ''00000000000000a2'' critical_stopped)) = [False]"
    by code_simp
  have e: "activeThreats (stats (stopAttack ''00000000000000a2'' critical_stopped)) = 0"
    using b by (simp add: stats_stopAttack)
  from b e have "stopAttack ''00000000000000a2'' critical_stopped \<noteq> critical_stopped" by auto
  with a b c d e show ?thesis by simp
qed

subsection \<open>The count of active threats\<close>

text \<open>
  C4 fails on the code. In \<open>blocked_and_unblocked\<close> a blocked attack (id ending in \<open>a1\<close>) and an
  unblocked attack (id ending in \<open>a2\<close>) are active and \<open>activeThreats\<close> is 1, the number of unblocked attacks.
  Stopping the blocked attack \<open>a1\<close> decrements \<open>activeThreats\<close> to 0 although the unblocked
  attack \<open>a2\<close> is still active.
\<close>

theorem stopAttack_blocked_miscounts:
  "reachable_fresh (stopAttack ''00000000000000a1'' blocked_and_unblocked)
   \<and> map (\<lambda>a. (att_id a, att_blocked a)) (activeAttacks blocked_and_unblocked)
       = [(''00000000000000a1'', True), (''00000000000000a2'', False)]
   \<and> activeThreats (stats blocked_and_unblocked) = 1
   \<and> map (\<lambda>a. (att_id a, att_blocked a)) (activeAttacks (stopAttack ''00000000000000a1'' blocked_and_unblocked))
       = [(''00000000000000a2'', False)]
   \<and> unblockedCount (stopAttack ''00000000000000a1'' blocked_and_unblocked) = 1
   \<and> activeThreats (stats (stopAttack ''00000000000000a1'' blocked_and_unblocked)) = 0"
proof -
  have "reachable_fresh (stopAttack ''00000000000000a1'' blocked_and_unblocked)"
    by (rule f_stop [OF fresh_blocked_and_unblocked])
  moreover have "map (\<lambda>a. (att_id a, att_blocked a)) (activeAttacks blocked_and_unblocked)
       = [(''00000000000000a1'', True), (''00000000000000a2'', False)]" by code_simp
  moreover have "activeThreats (stats blocked_and_unblocked) = 1" by code_simp
  moreover have "map (\<lambda>a. (att_id a, att_blocked a))
        (activeAttacks (stopAttack ''00000000000000a1'' blocked_and_unblocked)) = [(''00000000000000a2'', False)]"
    by code_simp
  moreover have "unblockedCount (stopAttack ''00000000000000a1'' blocked_and_unblocked) = 1" by code_simp
  moreover have "activeThreats (stats (stopAttack ''00000000000000a1'' blocked_and_unblocked)) = 0"
    by code_simp
  ultimately show ?thesis by simp
qed

subsection \<open>The rolling rate window\<close>

text \<open>
  C5: when \<open>startAttack\<close> (of a known type) recomputes \<open>attacksPerMinute\<close> at clock reading
  \<open>now2\<close>, the result is the number of timestamps \<open>t\<close> in the rolling window, the new one
  included, with \<open>now2 - t < 60000\<close>, and the window keeps exactly those; a timestamp
  exactly 60 seconds old is dropped. Along a run whose clock never runs backwards this
  is also the number of all timestamps recorded since the engine started that are less
  than 60 seconds old. \<open>refreshStats\<close> computes the rate in the same way.
\<close>

theorem rate_window:
  "(find (\<lambda>a. def_id a = attackType) attackDefinitions \<noteq> None \<longrightarrow>
      attackTimestamps (startAttack attackType r aid eid now now2 s)
        = filter (\<lambda>t. now2 - t < 60000) (attackTimestamps s @ [now])
      \<and> attacksPerMinute (stats (startAttack attackType r aid eid now now2 s))
        = int (length (filter (\<lambda>t. now2 - t < 60000) (attackTimestamps s @ [now])))
      \<and> (recorded_run T rec s \<and> T \<le> now \<and> now \<le> now2 \<longrightarrow>
           attacksPerMinute (stats (startAttack attackType r aid eid now now2 s))
             = int (length (filter (\<lambda>t. now2 - t < 60000) (rec @ [now])))))
   \<and> attackTimestamps (refreshStats attacks total' totalBlocked now s)
        = filter (\<lambda>t. now - t < 60000) (attackTimestamps s)
   \<and> attacksPerMinute (stats (refreshStats attacks total' totalBlocked now s))
        = int (length (filter (\<lambda>t. now - t < 60000) (attackTimestamps s)))"
proof (intro conjI impI)
  have eq: "(\<lambda>t::int. now2 - 60000 < t) = (\<lambda>t. now2 - t < 60000)" by auto
  {
    assume "find (\<lambda>a. def_id a = attackType) attackDefinitions \<noteq> None"
    then obtain d where d: "find (\<lambda>a. def_id a = attackType) attackDefinitions = Some d"
      by auto
    show w: "attackTimestamps (startAttack attackType r aid eid now now2 s)
        = filter (\<lambda>t. now2 - t < 60000) (attackTimestamps s @ [now])"
      unfolding attackTimestamps_startAttack [OF d] eq ..
    show a: "attacksPerMinute (stats (startAttack attackType r aid eid now now2 s))
        = int (length (filter (\<lambda>t. now2 - t < 60000) (attackTimestamps s @ [now])))"
      unfolding stats_startAttack [OF d] eq by simp
    assume "recorded_run T rec s \<and> T \<le> now \<and> now \<le> now2"
    then have run: "recorded_run T rec s" and le: "T \<le> now2" by simp_all
    from recorded_run_window [OF run] obtain C where C: "C \<le> T - 60000"
      and ts: "attackTimestamps s = filter (\<lambda>t. t > C) rec" by blast
    from C le have "(C < t \<and> now2 - t < 60000) = (now2 - t < 60000)" for t by auto
    then have "filter (\<lambda>t. now2 - t < 60000) (attackTimestamps s @ [now])
        = filter (\<lambda>t. now2 - t < 60000) (rec @ [now])"
      by (simp add: ts)
    with a show "attacksPerMinute (stats (startAttack attackType r aid eid now now2 s))
             = int (length (filter (\<lambda>t. now2 - t < 60000) (rec @ [now])))"
      by simp
  }
  show "attackTimestamps (refreshStats attacks total' totalBlocked now s)
        = filter (\<lambda>t. now - t < 60000) (attackTimestamps s)"
    by (simp add: refreshStats_def Let_def)
  show "attacksPerMinute (stats (refreshStats attacks total' totalBlocked now s))
        = int (length (filter (\<lambda>t. now - t < 60000) (attackTimestamps s)))"
    by (simp add: refreshStats_def Let_def)
qed

theorem rate_window_witness:
  "find (\<lambda>a. def_id a = DOS) attackDefinitions \<noteq> None
   \<and> recorded_run 31000 [1000, 31000] two_recorded
   \<and> filter (\<lambda>t. 61000 - t < 60000) ([1000, 31000] @ [61000 :: int]) = [31000, 61000]
   \<and> attackTimestamps (startAttack DOS 0 ''00000000000000a3'' ''00000000000000e3'' 61000 61000 two_recorded)
       = [31000, 61000]
   \<and> attacksPerMinute (stats (startAttack DOS 0 ''00000000000000a3'' ''00000000000000e3'' 61000 61000 two_recorded)) = 2"
proof -
  have f: "filter (\<lambda>t. 61000 - t < 60000) ([1000, 31000] @ [61000 :: int]) = [31000, 61000]"
    by simp
  have w: "attackTimestamps two_recorded = [1000, 31000]" by code_simp
  have le: "(31000::int) \<le> 61000" "(61000::int) \<le> 61000" by simp_all
  from rate_window [where attackType = DOS and r = 0 and aid = "''00000000000000a3''" and eid = "''00000000000000e3''"
      and now = 61000 and ?now2.0 = 61000 and s = two_recorded and T = 31000
      and rec = "[1000, 31000]"]
    find_DOS recorded_run_two_recorded le
  have "attackTimestamps (startAttack DOS 0 ''00000000000000a3'' ''00000000000000e3'' 61000 61000 two_recorded)
        = filter (\<lambda>t. 61000 - t < 60000) (attackTimestamps two_recorded @ [61000])"
    and "attacksPerMinute (stats (startAttack DOS 0 ''00000000000000a3'' ''00000000000000e3'' 61000 61000 two_recorded))
        = int (length (filter (\<lambda>t. 61000 - t < 60000) ([1000, 31000] @ [61000 :: int])))"
    by blast+
  then have "attackTimestamps (startAttack DOS 0 ''00000000000000a3'' ''00000000000000e3'' 61000 61000 two_recorded)
        = [31000, 61000]"
    and "attacksPerMinute (stats (startAttack DOS 0 ''00000000000000a3'' ''00000000000000e3'' 61000 61000 two_recorded)) = 2"
    unfolding w f by simp_all
  with f w find_DOS recorded_run_two_recorded show ?thesis by simp
qed

subsection \<open>The event log\<close>

text \<open>
  C6: at every reachable state the event log has at most 50 entries. \<open>pushEvent\<close> puts the
  new event first and keeps the earlier entries in their order behind it, so the log is
  newest first; pushed on a full log, the new event is followed by all earlier entries
  but the last, so the oldest entry and only that one is evicted. Along a run whose
  clock never runs backwards the timestamps of the log are in descending order.
\<close>

theorem event_log_cap:
  "(reachable s \<longrightarrow> length (events s) \<le> 50)
   \<and> events (pushEvent event s) = event # take 49 (events s)
   \<and> (length (events s) = 50 \<longrightarrow> events (pushEvent event s) = event # butlast (events s))
   \<and> (recorded_run T rec s \<longrightarrow> sorted_wrt (\<ge>) (map ev_timestamp (events s)))"
proof (intro conjI impI)
  assume "reachable s"
  from reachable_events_le [OF this] show "length (events s) \<le> 50"
    by (simp add: MAX_EVENTS_def)
next
  show "events (pushEvent event s) = event # take 49 (events s)"
    by (simp add: events_pushEvent MAX_EVENTS_def)
next
  assume "length (events s) = 50"
  then show "events (pushEvent event s) = event # butlast (events s)"
    by (simp add: events_pushEvent MAX_EVENTS_def butlast_conv_take)
next
  assume "recorded_run T rec s"
  from recorded_run_events_sorted [OF this]
  show "sorted_wrt (\<ge>) (map ev_timestamp (events s))" by simp
qed

theorem event_log_cap_witness:
  "reachable (toggled 50) \<and> recorded_run 49 [] (toggled 50)
   \<and> length (events (toggled 50)) = 50
   \<and> map ev_timestamp (events (toggled 50)) = rev (map int [0..<50])
   \<and> sorted_wrt (\<ge>) (map ev_timestamp (events (toggled 50)))
   \<and> events (pushEvent sample_event (toggled 50)) = sample_event # butlast (events (toggled 50))
   \<and> map ev_timestamp (events (pushEvent sample_event (toggled 50)))
       = 50 # rev (map int [1..<50])
   \<and> length (events (toggled 51)) \<le> 50"
proof -
  have r: "reachable (toggled 50)" by (rule reachable_toggled)
  have rr: "recorded_run 49 [] (toggled 50)"
    using recorded_run_toggled [of 50] by simp
  have t: "map ev_timestamp (events (toggled 50)) = rev (map int [0..<50])"
    by (simp add: toggled_timestamps MAX_EVENTS_def)
  have "length (map ev_timestamp (events (toggled 50))) = 50"
    unfolding t by simp
  then have l: "length (events (toggled 50)) = 50" by simp
  from event_log_cap [where s = "toggled 50" and event = sample_event and T = 49 and rec = "[]"]
    l rr
  have p: "events (pushEvent sample_event (toggled 50))
      = sample_event # butlast (events (toggled 50))"
    and s: "sorted_wrt (\<ge>) (map ev_timestamp (events (toggled 50)))"
    by blast+
  have "butlast (rev (map int [0..<50])) = rev (map int [1..<50])" by code_simp
  then have q: "map ev_timestamp (events (pushEvent sample_event (toggled 50)))
      = 50 # rev (map int [1..<50])"
    unfolding p by (simp add: map_butlast t sample_event_def)
  from event_log_cap [where s = "toggled 51"] reachable_toggled [of 51]
  have "length (events (toggled 51)) \<le> 50" by blast
  with r rr l t s p q show ?thesis by simp
qed

subsection \<open>Unknown attack type\<close>

text \<open>
  C7: for an \<open>attackType\<close> that is the id of no definition in the registry, \<open>startAttack\<close>
  returns the state it was given: devices, active attacks, event log, stats and rolling
  window are unchanged. (The action has no branch that throws.)
\<close>

theorem startAttack_unknown_type:
  assumes "attackType \<notin> set (map def_id attackDefinitions)"
  shows "startAttack attackType r aid eid now now2 s = s"
proof -
  from assms have "find (\<lambda>a. def_id a = attackType) attackDefinitions = None"
    by (auto simp add: find_None_iff)
  then show ?thesis by (simp add: startAttack_def)
qed

theorem startAttack_unknown_type_witness:
  "''port_scan'' \<notin> set (map def_id attackDefinitions)
   \<and> startAttack ''port_scan'' (1 / 2) ''00000000000000a9'' ''00000000000000e9'' 5000 5001 scenario_B = scenario_B"
proof -
  have h: "''port_scan'' \<notin> set (map def_id attackDefinitions)"
    by (simp add: attackDefinitions_def ATTACK_TYPES)
  from startAttack_unknown_type [OF h] h show ?thesis by simp
qed

subsection \<open>Reading the context\<close>

text \<open>
  C8: \<open>useSimulationContext\<close> throws an \<open>Error\<close> whose message names the missing
  \<open>SimulationProvider\<close> when the context value is the \<open>null\<close> default (no provider), and
  also when a provider publishes \<open>null\<close>; when a provider has published a value that is
  not \<open>null\<close> it returns that value.
\<close>

theorem useSimulationContext_fails_loudly:
  "useSimulationContext None =
     Inl (Error (''useSimulationContext must be used within a <SimulationProvider>. ''
                 @ ''Wrap your component tree with <Layout> or <SimulationProvider>.''))
   \<and> useSimulationContext (Some None) =
     Inl (Error (''useSimulationContext must be used within a <SimulationProvider>. ''
                 @ ''Wrap your component tree with <Layout> or <SimulationProvider>.''))
   \<and> useSimulationContext (Some (Some v)) = Inr v"
  by (simp add: useSimulationContext_def useContext_def)

subsection \<open>The initial state\<close>

text \<open>
  C10: in the initial state the protocol is enabled, the devices are the 6 devices of the
  registry, each with status secure, the active attacks, the event log and the rolling
  window are empty and the four stats are 0. So whatever attack starts first (the
  autonomous loop calls \<open>startAttack\<close> too) is blocked.
\<close>

theorem initial_engine_state:
  "protocolEnabled initialState
   \<and> map device_info.truncate (devices initialState) = initialDevices
   \<and> map dev_id (devices initialState)
       = [''router-01'', ''camera-01'', ''lock-01'', ''thermostat-01'', ''motion-01'',
          ''light-01'']
   \<and> map status (devices initialState) = [SECURE, SECURE, SECURE, SECURE, SECURE, SECURE]
   \<and> activeAttacks initialState = [] \<and> events initialState = []
   \<and> attackTimestamps initialState = []
   \<and> stats initialState
       = \<lparr>totalAttacks = 0, blockedAttacks = 0, activeThreats = 0, attacksPerMinute = 0\<rparr>
   \<and> list_all att_blocked
        (activeAttacks (startAttack attackType r aid eid now now2 initialState))
   \<and> map att_blocked (activeAttacks (startAttack attackType r aid eid now now2 initialState))
       = (case find (\<lambda>a. def_id a = attackType) attackDefinitions of
            None \<Rightarrow> [] | Some d \<Rightarrow> [True])"
proof -
  have "map att_blocked (activeAttacks (startAttack attackType r aid eid now now2 initialState))
       = (case find (\<lambda>a. def_id a = attackType) attackDefinitions of
            None \<Rightarrow> [] | Some d \<Rightarrow> [True])"
  proof (cases "find (\<lambda>a. def_id a = attackType) attackDefinitions")
    case None
    then show ?thesis by (simp add: startAttack_unknown initialState_def)
  next
    case (Some d)
    then show ?thesis by (simp add: activeAttacks_startAttack initialState_def)
  qed
  moreover
  have "list_all att_blocked
      (activeAttacks (startAttack attackType r aid eid now now2 initialState))"
  proof (cases "find (\<lambda>a. def_id a = attackType) attackDefinitions")
    case None
    then show ?thesis by (simp add: startAttack_unknown initialState_def)
  next
    case (Some d)
    then show ?thesis by (simp add: activeAttacks_startAttack initialState_def)
  qed
  moreover have "protocolEnabled initialState
   \<and> map device_info.truncate (devices initialState) = initialDevices
   \<and> map dev_id (devices initialState)
       = [''router-01'', ''camera-01'', ''lock-01'', ''thermostat-01'', ''motion-01'',
          ''light-01'']
   \<and> map status (devices initialState) = [SECURE, SECURE, SECURE, SECURE, SECURE, SECURE]
   \<and> activeAttacks initialState = [] \<and> events initialState = []
   \<and> attackTimestamps initialState = []
   \<and> stats initialState
       = \<lparr>totalAttacks = 0, blockedAttacks = 0, activeThreats = 0, attacksPerMinute = 0\<rparr>"
    by (simp add: initialState_def buildInitialDevices_def initialDevices_def
        device_info.extend_def device.fields_def device_info.truncate_def)
  ultimately show ?thesis by blast
qed

end
